theory Spec2Isabelle
  imports Complex_Main "HOL-Library.Word"
begin

unbundle bit_operations_syntax

section \<open>Machine types\<close>

type_synonym u8 = "8 word"
type_synonym u16 = "16 word"
type_synonym u32 = "32 word"

section \<open>Register map (MAX30101.h)\<close>

definition SENSOR_ADDR :: u8 where "SENSOR_ADDR = 0xAE"
definition FIFO_WRITPTR :: u8 where "FIFO_WRITPTR = 0x04"
definition FIFO_READPTR :: u8 where "FIFO_READPTR = 0x06"
definition FIFO_DATAREG :: u8 where "FIFO_DATAREG = 0x07"
definition FIFO_CONFIG :: u8 where "FIFO_CONFIG = 0x08"
definition MODE_CONFIG :: u8 where "MODE_CONFIG = 0x09"
definition SPO2_CONFIG :: u8 where "SPO2_CONFIG = 0x0A"
definition LED1_PAMPLI :: u8 where "LED1_PAMPLI = 0x0C"
definition LED2_PAMPLI :: u8 where "LED2_PAMPLI = 0x0D"
definition LED3_PAMPLI :: u8 where "LED3_PAMPLI = 0x0E"
definition DIE_TEMPCFG :: u8 where "DIE_TEMPCFG = 0x21"

section \<open>The two-wire bus (I2C.h)\<close>

text \<open>
  \<open>I2C.h\<close> declares \<open>I2C1_Write\<close> and \<open>I2C1_Read\<close>; their bodies are not part of the
  sources. Both return \<open>void\<close>, so a transaction has no error result. The bus is a state
  that is passed through every call:
  \<^item> \<open>trace\<close>: the transactions issued so far, oldest first;
  \<^item> \<open>feed\<close>: the bytes the device puts on the bus, the \<open>k\<close>-th byte clocked in by the
    master being \<open>feed k\<close> (any device behaviour in a run is one such sequence);
  \<^item> \<open>clocked\<close>: how many bytes have been clocked in so far.
\<close>

datatype txn =
    Write (txn_slave: u8) (txn_reg: u8) (txn_data: u8)
  | Read (txn_slave: u8) (txn_reg: u8) (txn_size: u8)

record bus =
  trace :: "txn list"
  feed :: "nat \<Rightarrow> u8"
  clocked :: nat

text \<open>
  Modelled from the spec: the body of \<open>I2C1_Write\<close> (section 4.1, "issues START,
  address+write bit, register address, data byte, STOP"): one single-byte register write.
\<close>

definition I2C1_Write :: "u8 \<Rightarrow> u8 \<Rightarrow> u8 \<Rightarrow> bus \<Rightarrow> bus" where
  "I2C1_Write slave addr data b = b\<lparr>trace := trace b @ [Write slave addr data]\<rparr>"

text \<open>
  Modelled from the spec: the body of \<open>I2C1_Read\<close> (section 4.1, "returns an ordered
  sequence of exactly \<open>count\<close> bytes"). The result is the contents of \<open>data[0..size-1]\<close>
  after the call (\<open>sz\<close> is the parameter \<open>size\<close>).
\<close>

definition I2C1_Read :: "u8 \<Rightarrow> u8 \<Rightarrow> u8 \<Rightarrow> bus \<Rightarrow> u8 list \<times> bus" where
  "I2C1_Read slave addr sz b =
     (map (feed b) [clocked b ..< clocked b + unat sz],
      b\<lparr>trace := trace b @ [Read slave addr sz], clocked := clocked b + unat sz\<rparr>)"

section \<open>FIFO availability (MAX30101\_GetNumAvailableSamples)\<close>

text \<open>
  The operands of \<open>-\<close> and \<open>+\<close> are promoted to \<open>int\<close> in C; the result is converted
  back to \<open>uint8_t\<close> by the assignment to \<open>num_samples\<close>.
\<close>

definition MAX30101_GetNumAvailableSamples :: "bus \<Rightarrow> u8 \<times> bus" where
  "MAX30101_GetNumAvailableSamples b =
     (let (wdata, b1) = I2C1_Read SENSOR_ADDR FIFO_WRITPTR 1 b;
          (rdata, b2) = I2C1_Read SENSOR_ADDR FIFO_READPTR 1 b1;
          write_ptr = (wdata ! 0) AND 0x1F;
          read_ptr = (rdata ! 0) AND 0x1F;
          num_samples =
            (if write_ptr \<ge> read_ptr
             then word_of_int (uint write_ptr - uint read_ptr)
             else word_of_int ((32 - uint read_ptr) + uint write_ptr)) :: u8
      in (num_samples, b2))"

section \<open>Configuration sequences (MAX30101\_InitSPO2Lite, MAX30101\_InitMuscleOx)\<close>

definition MAX30101_InitSPO2Lite :: "bus \<Rightarrow> bus" where
  "MAX30101_InitSPO2Lite b =
     (let b = I2C1_Write SENSOR_ADDR FIFO_CONFIG 0x4F b;
          b = I2C1_Write SENSOR_ADDR MODE_CONFIG 0x03 b;
          b = I2C1_Write SENSOR_ADDR SPO2_CONFIG 0x23 b;
          b = I2C1_Write SENSOR_ADDR FIFO_READPTR 0x0 b;
          b = I2C1_Write SENSOR_ADDR FIFO_WRITPTR 0x0 b;
          b = I2C1_Write SENSOR_ADDR LED1_PAMPLI 0x18 b;
          b = I2C1_Write SENSOR_ADDR LED2_PAMPLI 0x18 b;
          b = I2C1_Write SENSOR_ADDR DIE_TEMPCFG 0x01 b
      in b)"

definition MAX30101_InitMuscleOx :: "u8 \<Rightarrow> bus \<Rightarrow> bus" where
  "MAX30101_InitMuscleOx ledPower b =
     (let b = I2C1_Write SENSOR_ADDR FIFO_CONFIG 0x4F b;
          b = I2C1_Write SENSOR_ADDR MODE_CONFIG 0x07 b;
          b = I2C1_Write SENSOR_ADDR SPO2_CONFIG 0x26 b;
          b = I2C1_Write SENSOR_ADDR FIFO_READPTR 0x0 b;
          b = I2C1_Write SENSOR_ADDR FIFO_WRITPTR 0x0 b;
          b = I2C1_Write SENSOR_ADDR LED1_PAMPLI ledPower b;
          b = I2C1_Write SENSOR_ADDR LED2_PAMPLI ledPower b;
          b = I2C1_Write SENSOR_ADDR LED3_PAMPLI ledPower b;
          b = I2C1_Write SENSOR_ADDR DIE_TEMPCFG 0x01 b
      in b)"

text \<open>The transactions a call adds to the trace of the bus it started from.\<close>

definition emitted :: "bus \<Rightarrow> bus \<Rightarrow> txn list" where
  "emitted b b' = drop (length (trace b)) (trace b')"

section \<open>Sample formats (MAX30101.h)\<close>

text \<open>
  \<open>uint8_t red[2]\<close> is a pair (element 0, element 1). The three structs share their
  field names, so the fields are written with the name of their record.
\<close>

record MAX30101_Sample =
  red :: "u8 \<times> u8"
  ir :: "u8 \<times> u8"
  green :: "u8 \<times> u8"

record MAX30101_SampleData =
  red :: u16
  ir :: u16
  green :: u16

record 'f MAX30101_SampleCurrent =
  red :: 'f
  ir :: 'f
  green :: 'f

text \<open>Assignment to element 0 and to element 1 of a two-element array.\<close>

definition set0 :: "'a \<Rightarrow> 'a \<times> 'a \<Rightarrow> 'a \<times> 'a" where
  "set0 v p = (v, snd p)"

definition set1 :: "'a \<Rightarrow> 'a \<times> 'a \<Rightarrow> 'a \<times> 'a" where
  "set1 v p = (fst p, v)"

section \<open>Single-precision arithmetic\<close>

text \<open>
  \<open>float32_t\<close> comes from \<open>arm_math.h\<close>, which is not part of the sources. The type
  and the operations the driver uses on it are parameters: the conversion of a
  \<open>uint16_t\<close>, the product, the quotient, and the literals \<open>7.81f\<close> and \<open>1000.0f\<close>.
\<close>

record 'f fpu =
  of_u16 :: "u16 \<Rightarrow> 'f"
  fmul :: "'f \<Rightarrow> 'f \<Rightarrow> 'f"
  fdiv :: "'f \<Rightarrow> 'f \<Rightarrow> 'f"
  lit_7_81 :: 'f
  lit_1000 :: 'f

definition MAX30101_CURRENT_LSB_PA :: "'f fpu \<Rightarrow> 'f" where
  "MAX30101_CURRENT_LSB_PA fp = lit_7_81 fp"

definition MAX30101_CURRENT_LSB_NA :: "'f fpu \<Rightarrow> 'f" where
  "MAX30101_CURRENT_LSB_NA fp = fdiv fp (MAX30101_CURRENT_LSB_PA fp) (lit_1000 fp)"

text \<open>
  The free instance: every operation builds the expression it was applied to, so a value
  shows which operations produced it and in which order.
\<close>

datatype fexpr =
    OfU16 u16
  | Mul fexpr fexpr
  | Div fexpr fexpr
  | Lit_7_81
  | Lit_1000

definition symbolic :: "fexpr fpu" where
  "symbolic = \<lparr>of_u16 = OfU16, fmul = Mul, fdiv = Div, lit_7_81 = Lit_7_81, lit_1000 = Lit_1000\<rparr>"



section \<open>Reading the FIFO (MAX30101\_ReadFIFO, MAX30101\_ReadFIFO\_Current)\<close>

text \<open>
  The destination \<open>samples\<close> is a list as long as the array the caller passed. The
  functions do not know that length: a store to \<open>samples[i]\<close> with \<open>i\<close> beyond it writes
  outside the array, which C leaves undefined; the model stops there with
  \<open>OutOfBounds i\<close> and the state of the bus at that moment.
\<close>

datatype fault = OutOfBounds nat

function ReadFIFO_loop ::
  "u8 \<Rightarrow> u8 \<Rightarrow> MAX30101_Sample list \<Rightarrow> bus \<Rightarrow> (fault + MAX30101_Sample list) \<times> bus" where
  "ReadFIFO_loop i num_samples samples b =
     (if i < num_samples then
        (let (fifo_data, b) = I2C1_Read SENSOR_ADDR FIFO_DATAREG 6 b in
         if unat i < length samples then
           (let s = samples ! unat i;
                s = s\<lparr>MAX30101_Sample.red := set0 (fifo_data ! 0) (MAX30101_Sample.red s)\<rparr>;
                s = s\<lparr>MAX30101_Sample.red := set1 (fifo_data ! 1) (MAX30101_Sample.red s)\<rparr>;
                s = s\<lparr>MAX30101_Sample.ir := set0 (fifo_data ! 2) (MAX30101_Sample.ir s)\<rparr>;
                s = s\<lparr>MAX30101_Sample.ir := set1 (fifo_data ! 3) (MAX30101_Sample.ir s)\<rparr>;
                s = s\<lparr>MAX30101_Sample.green := set0 (fifo_data ! 4) (MAX30101_Sample.green s)\<rparr>;
                s = s\<lparr>MAX30101_Sample.green := set1 (fifo_data ! 5) (MAX30101_Sample.green s)\<rparr>
            in ReadFIFO_loop (i + 1) num_samples (samples[unat i := s]) b)
         else (Inl (OutOfBounds (unat i)), b))
      else (Inr samples, b))"
  by pat_completeness auto
termination
proof (relation "measure (\<lambda>(i, num_samples, samples, b). unat num_samples - unat i)", goal_cases)
  case 1
  show ?case by simp
next
  case (2 i n)
  from \<open>i < n\<close> have lt: "unat i < unat n" by (simp add: word_less_nat_alt)
  moreover have "unat n < 2 ^ LENGTH(8)" by (rule unsigned_less)
  ultimately have "unat i + unat (1 :: u8) < 2 ^ LENGTH(8)" by simp
  then have "unat (i + 1) = unat i + unat (1 :: u8)" by (simp only: unat_add_lem)
  with lt show ?case by simp
qed

declare ReadFIFO_loop.simps [simp del]

definition MAX30101_ReadFIFO ::
  "MAX30101_Sample list \<Rightarrow> u8 \<Rightarrow> bus \<Rightarrow> (fault + MAX30101_Sample list) \<times> bus" where
  "MAX30101_ReadFIFO samples num_samples b = ReadFIFO_loop 0 num_samples samples b"

definition MAX30101_ConvertSampleToUint16 :: "MAX30101_Sample \<Rightarrow> MAX30101_SampleData" where
  "MAX30101_ConvertSampleToUint16 sample_in =
     \<lparr>MAX30101_SampleData.red =
        push_bit 8 (ucast (fst (MAX30101_Sample.red sample_in)) :: u16)
          OR ucast (snd (MAX30101_Sample.red sample_in)),
      MAX30101_SampleData.ir =
        push_bit 8 (ucast (fst (MAX30101_Sample.ir sample_in)) :: u16)
          OR ucast (snd (MAX30101_Sample.ir sample_in)),
      MAX30101_SampleData.green =
        push_bit 8 (ucast (fst (MAX30101_Sample.green sample_in)) :: u16)
          OR ucast (snd (MAX30101_Sample.green sample_in))\<rparr>"

definition MAX30101_ConvertUint16ToCurrent ::
  "'f fpu \<Rightarrow> MAX30101_SampleData \<Rightarrow> 'f MAX30101_SampleCurrent" where
  "MAX30101_ConvertUint16ToCurrent fp sample_in =
     \<lparr>MAX30101_SampleCurrent.red =
        fmul fp (of_u16 fp (MAX30101_SampleData.red sample_in)) (MAX30101_CURRENT_LSB_NA fp),
      MAX30101_SampleCurrent.ir =
        fmul fp (of_u16 fp (MAX30101_SampleData.ir sample_in)) (MAX30101_CURRENT_LSB_NA fp),
      MAX30101_SampleCurrent.green =
        fmul fp (of_u16 fp (MAX30101_SampleData.green sample_in)) (MAX30101_CURRENT_LSB_NA fp)\<rparr>"

function ReadFIFO_Current_loop ::
  "'f fpu \<Rightarrow> u8 \<Rightarrow> u8 \<Rightarrow> 'f MAX30101_SampleCurrent list \<Rightarrow> bus
     \<Rightarrow> (fault + 'f MAX30101_SampleCurrent list) \<times> bus" where
  "ReadFIFO_Current_loop fp i num_samples samples b =
     (if i < num_samples then
        (let (fifo_data, b) = I2C1_Read SENSOR_ADDR FIFO_DATAREG 6 b in
         if unat i < length samples then
           (let s = samples ! unat i;
                temp = push_bit 8 (ucast (fifo_data ! 0) :: u16) OR ucast (fifo_data ! 1);
                s = s\<lparr>MAX30101_SampleCurrent.red :=
                        fmul fp (of_u16 fp temp) (MAX30101_CURRENT_LSB_NA fp)\<rparr>;
                temp = push_bit 8 (ucast (fifo_data ! 2) :: u16) OR ucast (fifo_data ! 3);
                s = s\<lparr>MAX30101_SampleCurrent.ir :=
                        fmul fp (of_u16 fp temp) (MAX30101_CURRENT_LSB_NA fp)\<rparr>;
                temp = push_bit 8 (ucast (fifo_data ! 4) :: u16) OR ucast (fifo_data ! 5);
                s = s\<lparr>MAX30101_SampleCurrent.green :=
                        fmul fp (of_u16 fp temp) (MAX30101_CURRENT_LSB_NA fp)\<rparr>
            in ReadFIFO_Current_loop fp (i + 1) num_samples (samples[unat i := s]) b)
         else (Inl (OutOfBounds (unat i)), b))
      else (Inr samples, b))"
  by pat_completeness auto
termination
proof (relation "measure (\<lambda>(fp, i, num_samples, samples, b). unat num_samples - unat i)", goal_cases)
  case 1
  show ?case by simp
next
  case (2 fp i n)
  from \<open>i < n\<close> have lt: "unat i < unat n" by (simp add: word_less_nat_alt)
  moreover have "unat n < 2 ^ LENGTH(8)" by (rule unsigned_less)
  ultimately have "unat i + unat (1 :: u8) < 2 ^ LENGTH(8)" by simp
  then have "unat (i + 1) = unat i + unat (1 :: u8)" by (simp only: unat_add_lem)
  with lt show ?case by simp
qed

declare ReadFIFO_Current_loop.simps [simp del]

definition MAX30101_ReadFIFO_Current ::
  "'f fpu \<Rightarrow> 'f MAX30101_SampleCurrent list \<Rightarrow> u8 \<Rightarrow> bus
     \<Rightarrow> (fault + 'f MAX30101_SampleCurrent list) \<times> bus" where
  "MAX30101_ReadFIFO_Current fp samples num_samples b =
     ReadFIFO_Current_loop fp 0 num_samples samples b"

section \<open>The periodic trigger (main.c, LED.c)\<close>

record 'f sys =
  ticks :: u32
  MAX30101_SampleCurrentBuffer :: "'f MAX30101_SampleCurrent list"
  i2c :: bus
  GPIOB_ODR :: u32

definition LED_Toggle :: "'f sys \<Rightarrow> 'f sys" where
  "LED_Toggle s = s\<lparr>GPIOB_ODR := GPIOB_ODR s XOR push_bit 3 1\<rparr>"

text \<open>
  When the read stores outside \<open>MAX30101_SampleCurrentBuffer\<close> the handler's result is
  the fault, with the state reached at that store.
\<close>

definition SysTick_Handler :: "'f fpu \<Rightarrow> 'f sys \<Rightarrow> (fault \<times> 'f sys) + 'f sys" where
  "SysTick_Handler fp s =
     (let s = s\<lparr>ticks := ticks s + 1\<rparr>;
          (available_samples, b) = MAX30101_GetNumAvailableSamples (i2c s);
          s = s\<lparr>i2c := b\<rparr>
      in if available_samples > 0 then
           (case MAX30101_ReadFIFO_Current fp (MAX30101_SampleCurrentBuffer s)
                   available_samples (i2c s) of
              (Inl f, b) \<Rightarrow> Inl (f, s\<lparr>i2c := b\<rparr>)
            | (Inr samples, b) \<Rightarrow>
                Inr (LED_Toggle (s\<lparr>MAX30101_SampleCurrentBuffer := samples, i2c := b\<rparr>)))
         else Inr (LED_Toggle s))"

section \<open>Auxiliary notions for the statements\<close>

text \<open>
  One burst is one six-byte read of the data port. \<open>burst k b\<close> is the bus after \<open>k\<close>
  bursts, and \<open>frame b k\<close> the six bytes the \<open>k\<close>-th burst from \<open>b\<close> delivers.
\<close>

definition burst :: "nat \<Rightarrow> bus \<Rightarrow> bus" where
  "burst k b = b\<lparr>trace := trace b @ replicate k (Read SENSOR_ADDR FIFO_DATAREG 6),
                clocked := clocked b + 6 * k\<rparr>"

definition frame :: "bus \<Rightarrow> nat \<Rightarrow> u8 list" where
  "frame b k = map (feed b) [clocked b + 6 * k ..< clocked b + 6 * k + 6]"

text \<open>The raw sample that \<open>MAX30101_ReadFIFO\<close> stores from the six bytes of a burst.\<close>

definition raw_of :: "u8 list \<Rightarrow> MAX30101_Sample" where
  "raw_of d = \<lparr>MAX30101_Sample.red = (d ! 0, d ! 1), MAX30101_Sample.ir = (d ! 2, d ! 3),
     MAX30101_Sample.green = (d ! 4, d ! 5)\<rparr>"

text \<open>The two conversion stages, one after the other.\<close>

definition two_stage :: "'f fpu \<Rightarrow> MAX30101_Sample \<Rightarrow> 'f MAX30101_SampleCurrent" where
  "two_stage fp s = MAX30101_ConvertUint16ToCurrent fp (MAX30101_ConvertSampleToUint16 s)"

text \<open>
  Following the spec's words (section 3, Operating Profile): the closed enumeration of
  profiles with the channel count of each. The driver keeps no such value.
\<close>

datatype profile = DualChannelLowPower | TripleChannelHighPenetration

fun channelCount :: "profile \<Rightarrow> nat" where
  "channelCount DualChannelLowPower = 2"
| "channelCount TripleChannelHighPenetration = 3"

subsection \<open>Concrete inputs\<close>

text \<open>A bus that has seen no transaction, whose device answers \<open>w\<close>, then \<open>r\<close>, then zeros.\<close>

definition pointer_bus :: "u8 \<Rightarrow> u8 \<Rightarrow> bus" where
  "pointer_bus w r =
     \<lparr>trace = [], feed = (\<lambda>k. if k = 0 then w else if k = 1 then r else 0), clocked = 0\<rparr>"

text \<open>A bus that has seen no transaction, whose device answers 0, 1, 2, ...\<close>

definition ramp_bus :: bus where
  "ramp_bus = \<lparr>trace = [], feed = (\<lambda>k. of_nat k), clocked = 0\<rparr>"

definition zero_raw :: MAX30101_Sample where
  "zero_raw = \<lparr>MAX30101_Sample.red = (0, 0), MAX30101_Sample.ir = (0, 0),
     MAX30101_Sample.green = (0, 0)\<rparr>"


definition zero_current :: "fexpr MAX30101_SampleCurrent" where
  "zero_current = \<lparr>MAX30101_SampleCurrent.red = OfU16 0, MAX30101_SampleCurrent.ir = OfU16 0,
     MAX30101_SampleCurrent.green = OfU16 0\<rparr>"

text \<open>
  The system when \<open>main\<close> reaches its loop: the eight entries of
  \<open>MAX30101_SampleCurrentBuffer\<close> hold zero, and the bus has seen
  \<open>MAX30101_InitMuscleOx(0x4B)\<close>. At the next tick the device answers 9 for its write
  pointer and 0 for its read pointer.
\<close>

definition overrun_state :: "fexpr sys" where
  "overrun_state =
     \<lparr>ticks = 0, MAX30101_SampleCurrentBuffer = replicate 8 zero_current,
      i2c = MAX30101_InitMuscleOx 0x4B (pointer_bus 9 0), GPIOB_ODR = 0\<rparr>"

section \<open>Properties\<close>

lemmas reg_defs =
  SENSOR_ADDR_def FIFO_WRITPTR_def FIFO_READPTR_def FIFO_DATAREG_def FIFO_CONFIG_def
  MODE_CONFIG_def SPO2_CONFIG_def LED1_PAMPLI_def LED2_PAMPLI_def LED3_PAMPLI_def
  DIE_TEMPCFG_def

text \<open>The loop counter \<open>i\<close> is a \<open>uint8_t\<close>; below \<open>num_samples\<close> its increment cannot wrap.\<close>

lemma u8_inc: "(i :: u8) < n \<Longrightarrow> unat (i + 1) = Suc (unat i)"
proof -
  assume "i < n"
  then have "unat i < unat n" by (simp add: word_less_nat_alt)
  moreover have "unat n < 256" using unsigned_less [of n, where ?'a = nat] by simp
  ultimately have "unat i + unat (1 :: u8) < 2 ^ LENGTH(8)" by simp
  then have "unat (i + 1) = unat i + unat (1 :: u8)" by (simp only: unat_add_lem)
  then show ?thesis by simp
qed

lemma mask5_bound: "uint ((x :: u8) AND 0x1F) \<le> 31"
proof -
  have "x AND 0x1F \<le> 0x1F" by (rule word_and_le1)
  then show ?thesis by (simp add: word_le_def)
qed

lemma available_value:
  "fst (MAX30101_GetNumAvailableSamples b) =
     (let w = feed b (clocked b) AND 0x1F; r = feed b (Suc (clocked b)) AND 0x1F
      in if w \<ge> r then word_of_int (uint w - uint r)
         else word_of_int ((32 - uint r) + uint w))"
  by (simp add: MAX30101_GetNumAvailableSamples_def I2C1_Read_def Let_def)

lemma uint_u8_of_int: "0 \<le> k \<Longrightarrow> k < 256 \<Longrightarrow> uint (word_of_int k :: u8) = k"
  by (simp add: uint_word_of_int_eq take_bit_int_eq_self)

lemma avail_uint:
  fixes w r :: u8
  assumes "uint w \<le> 31" "uint r \<le> 31"
  shows "uint ((if w \<ge> r then word_of_int (uint w - uint r)
         else word_of_int ((32 - uint r) + uint w)) :: u8) = (uint w - uint r) mod 32"
proof (cases "r \<le> w")
  case True
  then have le: "uint r \<le> uint w" by (simp add: word_le_def)
  have "0 \<le> uint r" by simp
  with le assms have b: "0 \<le> uint w - uint r" "uint w - uint r < 32" by linarith+
  then have "uint (word_of_int (uint w - uint r) :: u8) = uint w - uint r"
    by (intro uint_u8_of_int) linarith+
  moreover from b have "(uint w - uint r) mod 32 = uint w - uint r" by simp
  ultimately show ?thesis using True by (simp only: if_True)
next
  case False
  then have lt: "uint w < uint r" by (simp add: word_le_def)
  have "0 \<le> uint w" by simp
  with lt assms have b: "0 \<le> 32 - uint r + uint w" "32 - uint r + uint w < 32" by linarith+
  then have "uint (word_of_int (32 - uint r + uint w) :: u8) = 32 - uint r + uint w"
    by (intro uint_u8_of_int) linarith+
  moreover have "(uint w - uint r) mod 32 = 32 - uint r + uint w"
  proof -
    have "(uint w - uint r) mod 32 = (32 - uint r + uint w) mod 32"
      by (metis add.commute diff_add_eq mod_add_self2)
    with b show ?thesis by simp
  qed
  ultimately show ?thesis using False by (simp only: if_False)
qed

subsection \<open>The read loops in closed form\<close>

lemma burst_0: "burst 0 b = b"
  by (simp add: burst_def)

lemma burst_burst: "burst k (burst j b) = burst (j + k) b"
  by (simp add: burst_def replicate_add algebra_simps)

lemma frame_burst: "frame (burst j b) k = frame b (j + k)"
  by (simp add: burst_def frame_def algebra_simps)

lemma I2C1_Read_6: "I2C1_Read SENSOR_ADDR FIFO_DATAREG 6 b = (frame b 0, burst 1 b)"
  by (simp add: I2C1_Read_def frame_def burst_def)

lemma Sample_all_fields:
  "(s :: MAX30101_Sample)\<lparr>MAX30101_Sample.red := a, MAX30101_Sample.ir := c,
      MAX30101_Sample.green := e\<rparr> =
   \<lparr>MAX30101_Sample.red = a, MAX30101_Sample.ir = c, MAX30101_Sample.green = e\<rparr>"
  by (cases s) simp

lemma SampleCurrent_all_fields:
  "(s :: 'f MAX30101_SampleCurrent)\<lparr>MAX30101_SampleCurrent.red := a,
      MAX30101_SampleCurrent.ir := c, MAX30101_SampleCurrent.green := e\<rparr> =
   \<lparr>MAX30101_SampleCurrent.red = a, MAX30101_SampleCurrent.ir = c,
    MAX30101_SampleCurrent.green = e\<rparr>"
  by (cases s) simp

lemma ReadFIFO_loop_stop: "\<not> i < n \<Longrightarrow> ReadFIFO_loop i n s b = (Inr s, b)"
  by (subst ReadFIFO_loop.simps) simp

lemma ReadFIFO_loop_fault:
  "i < n \<Longrightarrow> \<not> unat i < length s \<Longrightarrow>
   ReadFIFO_loop i n s b = (Inl (OutOfBounds (unat i)), burst 1 b)"
  by (subst ReadFIFO_loop.simps) (simp add: I2C1_Read_6)

lemma ReadFIFO_loop_step:
  "i < n \<Longrightarrow> unat i < length s \<Longrightarrow>
   ReadFIFO_loop i n s b = ReadFIFO_loop (i + 1) n (s[unat i := raw_of (frame b 0)]) (burst 1 b)"
  by (subst ReadFIFO_loop.simps) (simp add: I2C1_Read_6 Let_def set0_def set1_def raw_of_def Sample_all_fields)

lemma Current_loop_stop: "\<not> i < n \<Longrightarrow> ReadFIFO_Current_loop fp i n s b = (Inr s, b)"
  by (subst ReadFIFO_Current_loop.simps) simp

lemma Current_loop_fault:
  "i < n \<Longrightarrow> \<not> unat i < length s \<Longrightarrow>
   ReadFIFO_Current_loop fp i n s b = (Inl (OutOfBounds (unat i)), burst 1 b)"
  by (subst ReadFIFO_Current_loop.simps) (simp add: I2C1_Read_6)

lemma Current_loop_step:
  "i < n \<Longrightarrow> unat i < length s \<Longrightarrow>
   ReadFIFO_Current_loop fp i n s b =
   ReadFIFO_Current_loop fp (i + 1) n (s[unat i := two_stage fp (raw_of (frame b 0))]) (burst 1 b)"
  by (subst ReadFIFO_Current_loop.simps)
     (simp add: I2C1_Read_6 Let_def two_stage_def raw_of_def SampleCurrent_all_fields
        MAX30101_ConvertUint16ToCurrent_def MAX30101_ConvertSampleToUint16_def)


lemma loop_success:
  fixes L :: "u8 \<Rightarrow> 'a list \<Rightarrow> bus \<Rightarrow> (fault + 'a list) \<times> bus"
  assumes stop: "\<And>i s b. \<not> i < n \<Longrightarrow> L i s b = (Inr s, b)"
    and step: "\<And>i s b. i < n \<Longrightarrow> unat i < length s \<Longrightarrow>
                 L i s b = L (i + 1) (s[unat i := mk (frame b 0)]) (burst 1 b)"
  shows "unat n - unat i = d \<Longrightarrow> unat i \<le> unat n \<Longrightarrow> unat n \<le> length s \<Longrightarrow>
         L i s b = (Inr (take (unat i) s @ map (\<lambda>k. mk (frame b k)) [0..<d] @ drop (unat n) s),
                    burst d b)"
proof (induction d arbitrary: i s b)
  case 0
  then have "\<not> i < n" by (simp add: word_less_nat_alt)
  moreover from 0 have "unat i = unat n" by simp
  ultimately show ?case by (simp add: stop burst_0)
next
  case (Suc d)
  then have lt: "i < n" by (simp add: word_less_nat_alt)
  then have inc: "unat (i + 1) = Suc (unat i)" by (rule u8_inc)
  from Suc.prems have len: "unat i < length s" by simp
  let ?s = "s[unat i := mk (frame b 0)]"
  have "L i s b = L (i + 1) ?s (burst 1 b)" using lt len by (rule step)
  also have "\<dots> = (Inr (take (unat (i + 1)) ?s @ map (\<lambda>k. mk (frame (burst 1 b) k)) [0..<d]
                        @ drop (unat n) ?s), burst d (burst 1 b))"
    using Suc.prems inc by (intro Suc.IH) simp_all
  also have "take (unat (i + 1)) ?s = take (unat i) s @ [mk (frame b 0)]"
    using len by (simp add: inc take_Suc_conv_app_nth)
  also have "drop (unat n) ?s = drop (unat n) s"
    using Suc.prems by simp
  also have "map (\<lambda>k. mk (frame (burst 1 b) k)) [0..<d] = map (\<lambda>k. mk (frame b (Suc k))) [0..<d]"
    by (simp add: frame_burst)
  also have "burst d (burst 1 b) = burst (Suc d) b"
    by (simp add: burst_burst)
  finally show ?case by (simp add: map_upt_Suc del: upt_Suc)
qed

lemma loop_overrun:
  fixes L :: "u8 \<Rightarrow> 'a list \<Rightarrow> bus \<Rightarrow> (fault + 'a list) \<times> bus"
  assumes fault: "\<And>i s b. i < n \<Longrightarrow> \<not> unat i < length s \<Longrightarrow>
                 L i s b = (Inl (OutOfBounds (unat i)), burst 1 b)"
    and step: "\<And>i s b. i < n \<Longrightarrow> unat i < length s \<Longrightarrow>
                 L i s b = L (i + 1) (s[unat i := mk (frame b 0)]) (burst 1 b)"
  shows "length s - unat i = d \<Longrightarrow> unat i \<le> length s \<Longrightarrow> length s < unat n \<Longrightarrow>
         L i s b = (Inl (OutOfBounds (length s)), burst (Suc d) b)"
proof (induction d arbitrary: i s b)
  case 0
  then have eq: "unat i = length s" by simp
  with 0 have "i < n" by (simp add: word_less_nat_alt)
  then show ?case using eq by (simp add: fault)
next
  case (Suc d)
  then have len: "unat i < length s" by simp
  with Suc.prems have lt: "i < n" by (simp add: word_less_nat_alt)
  then have inc: "unat (i + 1) = Suc (unat i)" by (rule u8_inc)
  let ?s = "s[unat i := mk (frame b 0)]"
  have "L i s b = L (i + 1) ?s (burst 1 b)" using lt len by (rule step)
  also have "\<dots> = (Inl (OutOfBounds (length ?s)), burst (Suc d) (burst 1 b))"
    using Suc.prems inc by (intro Suc.IH) simp_all
  finally show ?case by (simp add: burst_burst)
qed

lemma ReadFIFO_success:
  assumes "unat n \<le> length s"
  shows "MAX30101_ReadFIFO s n b =
         (Inr (map (\<lambda>k. raw_of (frame b k)) [0..<unat n] @ drop (unat n) s), burst (unat n) b)"
proof -
  have "ReadFIFO_loop 0 n s b =
        (Inr (take (unat (0 :: u8)) s @ map (\<lambda>k. raw_of (frame b k)) [0..<unat n]
              @ drop (unat n) s), burst (unat n) b)"
    using assms
    by (intro loop_success [where L = "\<lambda>i. ReadFIFO_loop i n" and n = n])
       (simp_all add: ReadFIFO_loop_stop ReadFIFO_loop_step)
  then show ?thesis by (simp add: MAX30101_ReadFIFO_def)
qed

lemma ReadFIFO_overrun:
  assumes "length s < unat n"
  shows "MAX30101_ReadFIFO s n b = (Inl (OutOfBounds (length s)), burst (Suc (length s)) b)"
  unfolding MAX30101_ReadFIFO_def using assms
  by (intro loop_overrun [where L = "\<lambda>i. ReadFIFO_loop i n" and n = n and mk = raw_of])
     (simp_all add: ReadFIFO_loop_fault ReadFIFO_loop_step)

lemma Current_success:
  assumes "unat n \<le> length s"
  shows "MAX30101_ReadFIFO_Current fp s n b =
         (Inr (map (\<lambda>k. two_stage fp (raw_of (frame b k))) [0..<unat n] @ drop (unat n) s),
          burst (unat n) b)"
proof -
  have "ReadFIFO_Current_loop fp 0 n s b =
        (Inr (take (unat (0 :: u8)) s @ map (\<lambda>k. two_stage fp (raw_of (frame b k))) [0..<unat n]
              @ drop (unat n) s), burst (unat n) b)"
    using assms
    by (intro loop_success [where L = "\<lambda>i. ReadFIFO_Current_loop fp i n" and n = n])
       (simp_all add: Current_loop_stop Current_loop_step)
  then show ?thesis by (simp add: MAX30101_ReadFIFO_Current_def)
qed

lemma Current_overrun:
  assumes "length s < unat n"
  shows "MAX30101_ReadFIFO_Current fp s n b =
         (Inl (OutOfBounds (length s)), burst (Suc (length s)) b)"
  unfolding MAX30101_ReadFIFO_Current_def using assms
  by (intro loop_overrun [where L = "\<lambda>i. ReadFIFO_Current_loop fp i n" and n = n
        and mk = "\<lambda>d. two_stage fp (raw_of d)"])
     (simp_all add: Current_loop_fault Current_loop_step)

lemma emitted_burst: "emitted b (burst k b) = replicate k (Read SENSOR_ADDR FIFO_DATAREG 6)"
  by (simp add: emitted_def burst_def)

subsection \<open>Evaluation on the concrete inputs\<close>

lemma symbolic_sel:
  "of_u16 symbolic = OfU16" "fmul symbolic = Mul" "fdiv symbolic = Div"
  "lit_7_81 symbolic = Lit_7_81" "lit_1000 symbolic = Lit_1000"
  by (simp_all add: symbolic_def)

lemma LSB_symbolic: "MAX30101_CURRENT_LSB_NA symbolic = Div Lit_7_81 Lit_1000"
  by (simp add: MAX30101_CURRENT_LSB_NA_def MAX30101_CURRENT_LSB_PA_def symbolic_sel)

lemma frame_ramp: "frame ramp_bus k = map of_nat [6 * k ..< 6 * k + 6]"
  by (simp add: frame_def ramp_bus_def)

lemma upt_6: "[m ..< m + 6] = [m, m + 1, m + 2, m + 3, m + 4, m + 5]"
  by (simp add: upt_rec)

subsection \<open>The trigger when more samples are pending than the buffer holds\<close>

lemma available_bus:
  "snd (MAX30101_GetNumAvailableSamples b) =
     b\<lparr>trace := trace b @ [Read SENSOR_ADDR FIFO_WRITPTR 1, Read SENSOR_ADDR FIFO_READPTR 1],
       clocked := clocked b + 2\<rparr>"
  by (simp add: MAX30101_GetNumAvailableSamples_def I2C1_Read_def Let_def)

lemma SysTick_Handler_overrun:
  assumes "length (MAX30101_SampleCurrentBuffer s)
             < unat (fst (MAX30101_GetNumAvailableSamples (i2c s)))"
  shows "SysTick_Handler fp s =
           Inl (OutOfBounds (length (MAX30101_SampleCurrentBuffer s)),
                s\<lparr>ticks := ticks s + 1,
                  i2c := burst (Suc (length (MAX30101_SampleCurrentBuffer s)))
                           (snd (MAX30101_GetNumAvailableSamples (i2c s)))\<rparr>)"
proof -
  obtain n b where nb: "MAX30101_GetNumAvailableSamples (i2c s) = (n, b)"
    by (cases "MAX30101_GetNumAvailableSamples (i2c s)")
  with assms have len: "length (MAX30101_SampleCurrentBuffer s) < unat n" by simp
  then have "0 < unat n" by simp
  then have pos: "0 < n" by (simp add: word_less_nat_alt)
  show ?thesis
    using len pos by (simp add: SysTick_Handler_def nb Let_def Current_overrun)
qed

lemma overrun_state_available:
  "fst (MAX30101_GetNumAvailableSamples (i2c overrun_state)) = 9"
  by (simp add: available_value overrun_state_def MAX30101_InitMuscleOx_def I2C1_Write_def
        pointer_bus_def Let_def)

subsection \<open>The configuration sequences, written out\<close>

lemma InitSPO2Lite_emitted:
  "emitted b (MAX30101_InitSPO2Lite b) =
     [Write SENSOR_ADDR FIFO_CONFIG 0x4F, Write SENSOR_ADDR MODE_CONFIG 0x03,
      Write SENSOR_ADDR SPO2_CONFIG 0x23, Write SENSOR_ADDR FIFO_READPTR 0,
      Write SENSOR_ADDR FIFO_WRITPTR 0, Write SENSOR_ADDR LED1_PAMPLI 0x18,
      Write SENSOR_ADDR LED2_PAMPLI 0x18, Write SENSOR_ADDR DIE_TEMPCFG 0x01]"
  by (simp add: MAX30101_InitSPO2Lite_def I2C1_Write_def emitted_def)

lemma InitMuscleOx_emitted:
  "emitted b (MAX30101_InitMuscleOx ledPower b) =
     [Write SENSOR_ADDR FIFO_CONFIG 0x4F, Write SENSOR_ADDR MODE_CONFIG 0x07,
      Write SENSOR_ADDR SPO2_CONFIG 0x26, Write SENSOR_ADDR FIFO_READPTR 0,
      Write SENSOR_ADDR FIFO_WRITPTR 0, Write SENSOR_ADDR LED1_PAMPLI ledPower,
      Write SENSOR_ADDR LED2_PAMPLI ledPower, Write SENSOR_ADDR LED3_PAMPLI ledPower,
      Write SENSOR_ADDR DIE_TEMPCFG 0x01]"
  by (simp add: MAX30101_InitMuscleOx_def I2C1_Write_def emitted_def)

subsection \<open>The byte combination is lossless\<close>

text \<open>
  Both bytes can be read back from the 16-bit count, so
  \<open>MAX30101_ConvertSampleToUint16\<close> maps different raw samples to different counts.
\<close>

lemma combine_hi:
  "(ucast (drop_bit 8 (push_bit 8 (ucast (hi :: u8) :: u16) OR ucast (lo :: u8))) :: u8) = hi"
  by (rule bit_word_eqI) (auto simp: bit_simps dest: bit_imp_le_length)

lemma combine_lo:
  "(ucast (push_bit 8 (ucast (hi :: u8) :: u16) OR ucast (lo :: u8)) :: u8) = lo"
  by (rule bit_word_eqI) (auto simp: bit_simps)

lemma combine_inj:
  fixes a b c d :: u8
  assumes "push_bit 8 (ucast a :: u16) OR ucast b = push_bit 8 (ucast c :: u16) OR ucast d"
  shows "a = c \<and> b = d"
proof
  have "a = ucast (drop_bit 8 (push_bit 8 (ucast a :: u16) OR ucast b))"
    by (simp only: combine_hi)
  also have "\<dots> = ucast (drop_bit 8 (push_bit 8 (ucast c :: u16) OR ucast d))"
    by (simp only: assms)
  also have "\<dots> = c" by (simp only: combine_hi)
  finally show "a = c" .
  have "b = ucast (push_bit 8 (ucast a :: u16) OR ucast b)"
    by (simp only: combine_lo)
  also have "\<dots> = ucast (push_bit 8 (ucast c :: u16) OR ucast d)"
    by (simp only: assms)
  also have "\<dots> = d" by (simp only: combine_lo)
  finally show "b = d" .
qed

lemma ConvertSampleToUint16_lossless:
  assumes "MAX30101_ConvertSampleToUint16 s = MAX30101_ConvertSampleToUint16 s'"
  shows "s = s'"
proof -
  from assms have
    "MAX30101_Sample.red s = MAX30101_Sample.red s'"
    "MAX30101_Sample.ir s = MAX30101_Sample.ir s'"
    "MAX30101_Sample.green s = MAX30101_Sample.green s'"
    by (auto simp: MAX30101_ConvertSampleToUint16_def prod_eq_iff dest: combine_inj)
  then show ?thesis by simp
qed



subsection \<open>No single-precision value is 0.00781\<close>


section \<open>Claims\<close>

text \<open>
  C1. The claim has \<open>SysTick_Handler\<close> pass \<open>min(n, 8)\<close> to the fused read, so that at
  most eight entries of \<open>MAX30101_SampleCurrentBuffer\<close> are written in a period. The
  handler passes \<open>available_samples\<close> itself. With the write pointer at 9 and the read
  pointer at 0 it asks for 9 samples: after the two pointer reads nine bursts reach the
  bus, and the ninth store, to \<open>MAX30101_SampleCurrentBuffer[8]\<close>, lies outside the
  eight-entry array.
\<close>

theorem trigger_overruns_buffer:
  "\<exists>s. SysTick_Handler symbolic overrun_state = Inl (OutOfBounds 8, s)
      \<and> emitted (i2c overrun_state) (i2c s) =
          [Read SENSOR_ADDR FIFO_WRITPTR 1, Read SENSOR_ADDR FIFO_READPTR 1]
          @ replicate 9 (Read SENSOR_ADDR FIFO_DATAREG 6)"
proof -
  have len: "length (MAX30101_SampleCurrentBuffer overrun_state) = 8"
    by (simp add: overrun_state_def)
  then have "length (MAX30101_SampleCurrentBuffer overrun_state)
               < unat (fst (MAX30101_GetNumAvailableSamples (i2c overrun_state)))"
    by (simp add: overrun_state_available)
  from SysTick_Handler_overrun [OF this, of symbolic] show ?thesis
    by (simp add: len available_bus burst_def emitted_def)
qed

text \<open>
  C2. Whatever the two pointer registers deliver, with \<open>w\<close> and \<open>r\<close> the two bytes
  masked to five bits, \<open>MAX30101_GetNumAvailableSamples\<close> returns \<open>(w - r) mod 32\<close>. The
  result lies in \<open>[0, 31]\<close>, it is 0 exactly when \<open>w = r\<close>, and for \<open>w = 3\<close>, \<open>r = 29\<close> it
  is 6.
\<close>

theorem available_mod32:
  "(let w = feed b (clocked b) AND 0x1F;
        r = feed b (Suc (clocked b)) AND 0x1F;
        n = fst (MAX30101_GetNumAvailableSamples b)
    in uint n = (uint w - uint r) mod 32 \<and> 0 \<le> uint n \<and> uint n \<le> 31
       \<and> ((n = 0) = (w = r)) \<and> (w = 3 \<and> r = 29 \<longrightarrow> n = 6))"
proof -
  define w where "w = feed b (clocked b) AND 0x1F"
  define r where "r = feed b (Suc (clocked b)) AND 0x1F"
  define n where "n = fst (MAX30101_GetNumAvailableSamples b)"
  have bw: "uint w \<le> 31" and br: "uint r \<le> 31"
    unfolding w_def r_def by (rule mask5_bound)+
  have n_eq: "n = (if w \<ge> r then word_of_int (uint w - uint r)
         else word_of_int ((32 - uint r) + uint w))"
    unfolding n_def w_def r_def by (simp add: available_value Let_def)
  have val: "uint n = (uint w - uint r) mod 32"
    unfolding n_eq using bw br by (rule avail_uint)
  then have rng: "0 \<le> uint n" "uint n \<le> 31" by simp_all
  have "(uint n = 0) = (uint w = uint r)"
  proof -
    have "0 \<le> uint w" "0 \<le> uint r" by simp_all
    with bw br show ?thesis unfolding val by presburger
  qed
  then have eq0: "(n = 0) = (w = r)"
    by (simp add: word_uint_eq_iff)
  have wrap: "w = 3 \<and> r = 29 \<longrightarrow> n = 6" by (simp add: n_eq)
  from val rng eq0 wrap show ?thesis
    unfolding Let_def w_def r_def n_def by simp
qed

theorem available_mod32_witness:
  "feed (pointer_bus 3 29) (clocked (pointer_bus 3 29)) AND 0x1F = 3
   \<and> feed (pointer_bus 3 29) (Suc (clocked (pointer_bus 3 29))) AND 0x1F = 29
   \<and> fst (MAX30101_GetNumAvailableSamples (pointer_bus 3 29)) = 6"
  using available_mod32 [of "pointer_bus 3 29"]
  by (simp add: Let_def pointer_bus_def)

text \<open>
  C3. On the same bus bytes the fused path \<open>MAX30101_ReadFIFO_Current\<close> gives what the
  two-stage path gives: it leaves the bus in the same state, and the entries it writes
  are \<open>MAX30101_ConvertUint16ToCurrent\<close> of \<open>MAX30101_ConvertSampleToUint16\<close> of the raw
  samples that \<open>MAX30101_ReadFIFO\<close> stores, for every arithmetic on \<open>float32_t\<close> (so with
  the same operations in the same order). Both destinations have the same capacity.
\<close>

theorem fused_equals_two_stage:
  assumes "length cur = length raw"
  shows "MAX30101_ReadFIFO_Current fp cur n b =
    (case MAX30101_ReadFIFO raw n b of
       (Inr raw', b') \<Rightarrow>
         (Inr (map (\<lambda>s. MAX30101_ConvertUint16ToCurrent fp (MAX30101_ConvertSampleToUint16 s))
                 (take (unat n) raw') @ drop (unat n) cur), b')
     | (Inl f, b') \<Rightarrow> (Inl f, b'))"
proof (cases "unat n \<le> length raw")
  case True
  with assms have "unat n \<le> length cur" by simp
  then show ?thesis using True
    by (simp add: Current_success ReadFIFO_success two_stage_def o_def)
next
  case False
  then have "length raw < unat n" by simp
  moreover with assms have "length cur < unat n" by simp
  ultimately show ?thesis using assms
    by (simp add: Current_overrun ReadFIFO_overrun)
qed

theorem fused_equals_two_stage_witness:
  "length [zero_current, zero_current] = length [zero_raw, zero_raw] \<and>
   fst (MAX30101_ReadFIFO_Current symbolic [zero_current, zero_current] 1 ramp_bus) =
     Inr [\<lparr>MAX30101_SampleCurrent.red = Mul (OfU16 0x0001) (Div Lit_7_81 Lit_1000),
           MAX30101_SampleCurrent.ir = Mul (OfU16 0x0203) (Div Lit_7_81 Lit_1000),
           MAX30101_SampleCurrent.green = Mul (OfU16 0x0405) (Div Lit_7_81 Lit_1000)\<rparr>,
          zero_current]"
  using fused_equals_two_stage [of "[zero_current, zero_current]" "[zero_raw, zero_raw]" symbolic 1 ramp_bus]
  by (simp add: ReadFIFO_success frame_ramp upt_6 raw_of_def LSB_symbolic
        MAX30101_ConvertUint16ToCurrent_def MAX30101_ConvertSampleToUint16_def symbolic_sel)

text \<open>
  C4, as stated, fails: \<open>MAX30101_ReadFIFO\<close> takes no capacity and checks nothing. Asked
  for two samples with a destination of one entry, it has issued two bursts when the
  second store falls outside the destination.
\<close>

theorem readraw_no_check_counterexample:
  "emitted ramp_bus (snd (MAX30101_ReadFIFO [zero_raw] 2 ramp_bus)) =
     [Read SENSOR_ADDR FIFO_DATAREG 6, Read SENSOR_ADDR FIFO_DATAREG 6]
   \<and> emitted ramp_bus (snd (MAX30101_ReadFIFO [zero_raw] 2 ramp_bus)) \<noteq> []"
  by (simp add: ReadFIFO_overrun emitted_burst)

text \<open>
  C4, amended. When \<open>num_samples\<close> exceeds the capacity \<open>c\<close> of the destination,
  \<open>MAX30101_ReadFIFO\<close> issues \<open>c + 1\<close> six-byte bursts on the data port before the store of
  sample \<open>c\<close> falls outside the destination; it is the caller who must ensure the capacity.
\<close>

theorem readraw_overrun:
  assumes "length samples < unat n"
  shows "fst (MAX30101_ReadFIFO samples n b) = Inl (OutOfBounds (length samples))
       \<and> emitted b (snd (MAX30101_ReadFIFO samples n b)) =
           replicate (Suc (length samples)) (Read SENSOR_ADDR FIFO_DATAREG 6)"
  using assms by (simp add: ReadFIFO_overrun emitted_burst)

theorem readraw_overrun_witness:
  "length [zero_raw] < unat (2 :: u8)
   \<and> fst (MAX30101_ReadFIFO [zero_raw] 2 ramp_bus) = Inl (OutOfBounds 1)
   \<and> emitted ramp_bus (snd (MAX30101_ReadFIFO [zero_raw] 2 ramp_bus)) =
       replicate 2 (Read SENSOR_ADDR FIFO_DATAREG 6)"
proof -
  have h: "length [zero_raw] < unat (2 :: u8)" by simp
  have l: "length [zero_raw] = 1" "Suc 1 = 2" by simp_all
  from h readraw_overrun [OF h, of ramp_bus] show ?thesis unfolding l by (intro conjI) blast+
qed

text \<open>
  C5, as stated, fails for the dual-channel profile: after \<open>MAX30101_InitSPO2Lite\<close> a burst
  still asks for six bytes, not for \<open>2 \<times> 2 = 4\<close>.
\<close>

theorem dual_profile_burst_counterexample:
  "map (\<lambda>t. unat (txn_size t))
     (emitted (MAX30101_InitSPO2Lite ramp_bus)
        (snd (MAX30101_ReadFIFO [zero_raw] 1 (MAX30101_InitSPO2Lite ramp_bus)))) = [6]
   \<and> map (\<lambda>t. unat (txn_size t))
     (emitted (MAX30101_InitSPO2Lite ramp_bus)
        (snd (MAX30101_ReadFIFO [zero_raw] 1 (MAX30101_InitSPO2Lite ramp_bus))))
     \<noteq> [channelCount DualChannelLowPower * 2]"
  by (simp add: ReadFIFO_success emitted_burst)

text \<open>
  C5, amended. Whichever configuration the bus has seen, each of the \<open>num_samples\<close> bursts
  of \<open>MAX30101_ReadFIFO\<close> and of \<open>MAX30101_ReadFIFO_Current\<close> asks the data port for exactly
  six bytes, the \<open>channelCount \<times> 2\<close> of the triple-channel profile (the destination holds
  at least \<open>num_samples\<close> entries).
\<close>

theorem burst_size_six:
  assumes "unat n \<le> length raw" and "unat n \<le> length cur"
  shows "emitted b (snd (MAX30101_ReadFIFO raw n b)) =
           replicate (unat n) (Read SENSOR_ADDR FIFO_DATAREG 6)
       \<and> emitted b (snd (MAX30101_ReadFIFO_Current fp cur n b)) =
           replicate (unat n) (Read SENSOR_ADDR FIFO_DATAREG 6)
       \<and> unat (6 :: u8) = channelCount TripleChannelHighPenetration * 2"
  using assms by (simp add: Current_success ReadFIFO_success emitted_burst)

theorem burst_size_six_witness:
  "unat (2 :: u8) \<le> length [zero_raw, zero_raw]
   \<and> unat (2 :: u8) \<le> length [zero_current, zero_current]
   \<and> emitted (MAX30101_InitSPO2Lite ramp_bus)
         (snd (MAX30101_ReadFIFO [zero_raw, zero_raw] 2 (MAX30101_InitSPO2Lite ramp_bus))) =
       replicate 2 (Read SENSOR_ADDR FIFO_DATAREG 6)
   \<and> emitted (MAX30101_InitSPO2Lite ramp_bus)
         (snd (MAX30101_ReadFIFO_Current symbolic [zero_current, zero_current] 2
                 (MAX30101_InitSPO2Lite ramp_bus))) =
       replicate 2 (Read SENSOR_ADDR FIFO_DATAREG 6)"
proof -
  have h1: "unat (2 :: u8) \<le> length [zero_raw, zero_raw]" by simp
  have h2: "unat (2 :: u8) \<le> length [zero_current, zero_current]" by simp
  have u: "unat (2 :: u8) = 2" by simp
  from h1 h2 burst_size_six [OF h1 h2, of "MAX30101_InitSPO2Lite ramp_bus" symbolic]
  show ?thesis unfolding u by (intro conjI) blast+
qed

text \<open>
  C6. In the writes of \<open>MAX30101_InitSPO2Lite\<close> and of \<open>MAX30101_InitMuscleOx\<close> the two
  pointer resets (read pointer, then write pointer, both to zero) are part of the sequence
  the call emits, the writes of the FIFO configuration and of the mode come before them,
  no pointer register is written before them, and neither the FIFO configuration, the mode
  nor a pointer register is written after them.
\<close>

theorem pointer_reset_after_config:
  "(\<exists>pre post.
      emitted b (MAX30101_InitSPO2Lite b) =
        pre @ [Write SENSOR_ADDR FIFO_READPTR 0, Write SENSOR_ADDR FIFO_WRITPTR 0] @ post
      \<and> Write SENSOR_ADDR FIFO_CONFIG 0x4F \<in> set pre
      \<and> Write SENSOR_ADDR MODE_CONFIG 0x03 \<in> set pre
      \<and> filter (\<lambda>t. txn_reg t \<in> {FIFO_READPTR, FIFO_WRITPTR}) pre = []
      \<and> filter (\<lambda>t. txn_reg t \<in> {FIFO_CONFIG, MODE_CONFIG, FIFO_READPTR, FIFO_WRITPTR}) post = [])
   \<and> (\<exists>pre post.
      emitted b (MAX30101_InitMuscleOx ledPower b) =
        pre @ [Write SENSOR_ADDR FIFO_READPTR 0, Write SENSOR_ADDR FIFO_WRITPTR 0] @ post
      \<and> Write SENSOR_ADDR FIFO_CONFIG 0x4F \<in> set pre
      \<and> Write SENSOR_ADDR MODE_CONFIG 0x07 \<in> set pre
      \<and> filter (\<lambda>t. txn_reg t \<in> {FIFO_READPTR, FIFO_WRITPTR}) pre = []
      \<and> filter (\<lambda>t. txn_reg t \<in> {FIFO_CONFIG, MODE_CONFIG, FIFO_READPTR, FIFO_WRITPTR}) post = [])"
proof (intro conjI)
  show "\<exists>pre post.
      emitted b (MAX30101_InitSPO2Lite b) =
        pre @ [Write SENSOR_ADDR FIFO_READPTR 0, Write SENSOR_ADDR FIFO_WRITPTR 0] @ post
      \<and> Write SENSOR_ADDR FIFO_CONFIG 0x4F \<in> set pre
      \<and> Write SENSOR_ADDR MODE_CONFIG 0x03 \<in> set pre
      \<and> filter (\<lambda>t. txn_reg t \<in> {FIFO_READPTR, FIFO_WRITPTR}) pre = []
      \<and> filter (\<lambda>t. txn_reg t \<in> {FIFO_CONFIG, MODE_CONFIG, FIFO_READPTR, FIFO_WRITPTR}) post = []"
    unfolding InitSPO2Lite_emitted
    by (rule exI [of _ "[Write SENSOR_ADDR FIFO_CONFIG 0x4F, Write SENSOR_ADDR MODE_CONFIG 0x03,
          Write SENSOR_ADDR SPO2_CONFIG 0x23]"],
        rule exI [of _ "[Write SENSOR_ADDR LED1_PAMPLI 0x18, Write SENSOR_ADDR LED2_PAMPLI 0x18,
          Write SENSOR_ADDR DIE_TEMPCFG 0x01]"])
       (simp add: reg_defs)
  show "\<exists>pre post.
      emitted b (MAX30101_InitMuscleOx ledPower b) =
        pre @ [Write SENSOR_ADDR FIFO_READPTR 0, Write SENSOR_ADDR FIFO_WRITPTR 0] @ post
      \<and> Write SENSOR_ADDR FIFO_CONFIG 0x4F \<in> set pre
      \<and> Write SENSOR_ADDR MODE_CONFIG 0x07 \<in> set pre
      \<and> filter (\<lambda>t. txn_reg t \<in> {FIFO_READPTR, FIFO_WRITPTR}) pre = []
      \<and> filter (\<lambda>t. txn_reg t \<in> {FIFO_CONFIG, MODE_CONFIG, FIFO_READPTR, FIFO_WRITPTR}) post = []"
    unfolding InitMuscleOx_emitted
    by (rule exI [of _ "[Write SENSOR_ADDR FIFO_CONFIG 0x4F, Write SENSOR_ADDR MODE_CONFIG 0x07,
          Write SENSOR_ADDR SPO2_CONFIG 0x26]"],
        rule exI [of _ "[Write SENSOR_ADDR LED1_PAMPLI ledPower, Write SENSOR_ADDR LED2_PAMPLI ledPower,
          Write SENSOR_ADDR LED3_PAMPLI ledPower, Write SENSOR_ADDR DIE_TEMPCFG 0x01]"])
       (simp add: reg_defs)
qed



text \<open>
  C8. \<open>MAX30101_ReadFIFO_Current\<close> with \<open>num_samples = 0\<close> returns the destination as it
  was and the bus as it was: no entry is written and no transaction is issued.
\<close>

theorem read_zero:
  "MAX30101_ReadFIFO_Current fp samples 0 b = (Inr samples, b)
   \<and> emitted b (snd (MAX30101_ReadFIFO_Current fp samples 0 b)) = []"
  by (simp add: MAX30101_ReadFIFO_Current_def Current_loop_stop emitted_def)

text \<open>
  C9. For every byte \<open>ledPower\<close>, the writes of \<open>MAX30101_InitMuscleOx ledPower\<close> to the
  three drive-current registers are exactly one write of \<open>ledPower\<close> itself to each of
  \<open>LED1_PAMPLI\<close>, \<open>LED2_PAMPLI\<close> and \<open>LED3_PAMPLI\<close>.
\<close>

theorem drive_power_applied:
  "filter (\<lambda>t. txn_reg t \<in> {LED1_PAMPLI, LED2_PAMPLI, LED3_PAMPLI})
     (emitted b (MAX30101_InitMuscleOx ledPower b)) =
   [Write SENSOR_ADDR LED1_PAMPLI ledPower, Write SENSOR_ADDR LED2_PAMPLI ledPower,
    Write SENSOR_ADDR LED3_PAMPLI ledPower]"
  unfolding InitMuscleOx_emitted by (simp add: reg_defs)

text \<open>
  C10. When \<open>num_samples\<close> is at most the length of the destination, \<open>MAX30101_ReadFIFO\<close>
  and \<open>MAX30101_ReadFIFO_Current\<close> return a destination of the same length whose entries
  from index \<open>num_samples\<close> on are the previous ones.
\<close>

theorem read_frame:
  assumes "unat n \<le> length raw" and "unat n \<le> length cur"
  shows "(\<exists>raw'. fst (MAX30101_ReadFIFO raw n b) = Inr raw' \<and> length raw' = length raw
            \<and> drop (unat n) raw' = drop (unat n) raw)
       \<and> (\<exists>cur'. fst (MAX30101_ReadFIFO_Current fp cur n b) = Inr cur' \<and> length cur' = length cur
            \<and> drop (unat n) cur' = drop (unat n) cur)"
  using assms by (simp add: Current_success ReadFIFO_success)

theorem read_frame_witness:
  "unat (1 :: u8) \<le> length [zero_raw, zero_raw]
   \<and> unat (1 :: u8) \<le> length [zero_current, zero_current]
   \<and> (\<exists>raw'. fst (MAX30101_ReadFIFO [zero_raw, zero_raw] 1 ramp_bus) = Inr raw'
          \<and> length raw' = length [zero_raw, zero_raw]
          \<and> drop (unat (1 :: u8)) raw' = drop (unat (1 :: u8)) [zero_raw, zero_raw])
   \<and> (\<exists>cur'. fst (MAX30101_ReadFIFO_Current symbolic [zero_current, zero_current] 1 ramp_bus)
            = Inr cur'
          \<and> length cur' = length [zero_current, zero_current]
          \<and> drop (unat (1 :: u8)) cur' = drop (unat (1 :: u8)) [zero_current, zero_current])"
proof -
  have h1: "unat (1 :: u8) \<le> length [zero_raw, zero_raw]" by simp
  have h2: "unat (1 :: u8) \<le> length [zero_current, zero_current]" by simp
  from h1 h2 read_frame [OF h1 h2, of ramp_bus symbolic] show ?thesis by (intro conjI) blast+
qed

end
